theory Spec2Isabelle
  imports Complex_Main "HOL-Library.Word" "HOL-Library.Sublist"
begin

section \<open>JavaScript strings\<close>

text \<open>
  A JavaScript string is a sequence of UTF-16 code units. Every non-ASCII character the
  sources use lies in the Basic Multilingual Plane and is one code unit: the question mark
  ornament U+2753 of \<^verbatim>\<open>ParcelResult\<close> and the rupee sign U+20B9 of its cost pattern.
\<close>

type_synonym code_unit = "16 word"
type_synonym jsstring = "code_unit list"

text \<open>ASCII literals of the sources are written through \<open>js\<close>.\<close>

definition js :: "string \<Rightarrow> jsstring" where
  "js s = map of_char s"

text \<open>
  \<^verbatim>\<open>String.prototype.trim\<close> removes leading and trailing WhiteSpace and LineTerminator
  code points (ECMA-262): TAB, LF, VT, FF, CR, SP, NBSP, U+1680, U+2000..U+200A, U+2028,
  U+2029, U+202F, U+205F, U+3000 and U+FEFF.
\<close>

definition is_js_whitespace :: "code_unit \<Rightarrow> bool" where
  "is_js_whitespace c \<longleftrightarrow>
     c = 0x0009 \<or> c = 0x000A \<or> c = 0x000B \<or> c = 0x000C \<or> c = 0x000D \<or> c = 0x0020 \<or>
     c = 0x00A0 \<or> c = 0x1680 \<or> (0x2000 \<le> c \<and> c \<le> 0x200A) \<or> c = 0x2028 \<or>
     c = 0x2029 \<or> c = 0x202F \<or> c = 0x205F \<or> c = 0x3000 \<or> c = 0xFEFF"

definition trim :: "jsstring \<Rightarrow> jsstring" where
  "trim s = rev (dropWhile is_js_whitespace (rev (dropWhile is_js_whitespace s)))"

text \<open>A string is truthy exactly when it is not empty.\<close>

definition truthy :: "jsstring \<Rightarrow> bool" where
  "truthy s \<longleftrightarrow> s \<noteq> []"

section \<open>ParcelForm\<close>

text \<open>
  The component state of \<^verbatim>\<open>ParcelForm\<close>: the free-text message (the state variable
  \<^verbatim>\<open>message\<close>, here \<open>formMessage\<close>), the quick-form switch and the five quick-form
  fields, in the key order of the object literal.
\<close>

record quickFormData =
  company :: jsstring
  fromCity :: jsstring
  toCity :: jsstring
  weight :: jsstring
  material :: jsstring

record parcel_form =
  formMessage :: jsstring
  useQuickForm :: bool
  quickFormData :: quickFormData

text \<open>
  \<^verbatim>\<open>Object.values(quickFormData)\<close>: the values in insertion order of the keys. The update
  \<^verbatim>\<open>{...prev, [field]: value}\<close> keeps every existing key at its place.
\<close>

definition Object_values :: "quickFormData \<Rightarrow> jsstring list" where
  "Object_values q = [company q, fromCity q, toCity q, weight q, material q]"

text \<open>
  The template literal
  \<^verbatim>\<open>`Create a parcel for ${company} from ${fromCity} to ${toCity}, ${weight}kg ${material}`\<close>.
\<close>

definition generatedMessage :: "quickFormData \<Rightarrow> jsstring" where
  "generatedMessage q =
     js ''Create a parcel for '' @ company q @ js '' from '' @ fromCity q @ js '' to '' @
     toCity q @ js '', '' @ weight q @ js ''kg '' @ material q"

text \<open>
  \<^verbatim>\<open>ParcelForm.handleSubmit\<close>: the result is the argument of the call of \<^verbatim>\<open>onSubmit\<close>,
  or \<open>None\<close> when the handler returns without calling it.
\<close>

definition ParcelForm_handleSubmit :: "parcel_form \<Rightarrow> jsstring option" where
  "ParcelForm_handleSubmit f =
     (if useQuickForm f then Some (generatedMessage (quickFormData f))
      else if truthy (trim (formMessage f)) then Some (trim (formMessage f))
      else None)"

definition isFormValid :: "parcel_form \<Rightarrow> bool" where
  "isFormValid f =
     (if useQuickForm f then list_all (\<lambda>v. trim v \<noteq> []) (Object_values (quickFormData f))
      else trim (formMessage f) \<noteq> [])"

text \<open>The \<^verbatim>\<open>disabled\<close> attribute of the submit button: \<^verbatim>\<open>!isFormValid || isLoading\<close>.\<close>

definition submit_disabled :: "parcel_form \<Rightarrow> bool \<Rightarrow> bool" where
  "submit_disabled f loading \<longleftrightarrow> \<not> isFormValid f \<or> loading"

section \<open>App\<close>

text \<open>
  The body of a response of \<^verbatim>\<open>POST /api/create-parcel\<close>, with the three properties the
  front end reads. \<open>success\<close> is the truthiness of \<^verbatim>\<open>response.data.success\<close>; an absent
  or null \<^verbatim>\<open>parcel_info\<close> is \<open>None\<close>. A JSON object stands as the list of its entries.
\<close>

type_synonym json_object = "(jsstring \<times> jsstring) list"

record response_data =
  success :: bool
  message :: jsstring
  parcel_info :: "json_object option"

text \<open>The state variables of \<^verbatim>\<open>App\<close>; \<open>None\<close> is \<^verbatim>\<open>null\<close>.\<close>

record app_state =
  isAuthenticated :: bool
  currentUser :: "json_object option"
  isLoading :: bool
  result :: "response_data option"
  error :: "jsstring option"
  cities :: "jsstring list"
  materials :: "jsstring list"

text \<open>
  How the promise of \<^verbatim>\<open>axios.post\<close> settles: it resolves with the response body, or it
  rejects with an error whose \<^verbatim>\<open>err.response?.data?.detail\<close> is given (\<open>None\<close> when a link of
  the optional chain is undefined).
\<close>

datatype post_outcome = Resolved response_data | Rejected "jsstring option"

text \<open>
  \<^verbatim>\<open>handleSubmit\<close> runs in two parts around its \<^verbatim>\<open>await\<close>. The first part sets the three
  state variables and sends the request: the result is the new state and the \<^verbatim>\<open>message\<close>
  property of the request body. The second part runs when the promise settles.
\<close>

definition handleSubmit_start :: "jsstring \<Rightarrow> app_state \<Rightarrow> app_state \<times> jsstring" where
  "handleSubmit_start msg st = (st\<lparr>isLoading := True, error := None, result := None\<rparr>, msg)"

definition handleSubmit_settle :: "post_outcome \<Rightarrow> app_state \<Rightarrow> app_state" where
  "handleSubmit_settle out st =
     (case out of
        Resolved d \<Rightarrow>
          (if success d then st\<lparr>result := Some d\<rparr>
           else st\<lparr>error := Some (js ''Failed to create parcel'')\<rparr>)\<lparr>isLoading := False\<rparr>
      | Rejected detail \<Rightarrow>
          st\<lparr>error := Some (case detail of
                               Some t \<Rightarrow> if truthy t then t
                                         else js ''An error occurred while creating the parcel''
                             | None \<Rightarrow> js ''An error occurred while creating the parcel''),
             isLoading := False\<rparr>)"

text \<open>
  \<^verbatim>\<open>handleClarifyingResponse\<close>: its body is the single call
  \<^verbatim>\<open>await handleSubmit(clarifyingMessage)\<close>.
\<close>

definition handleClarifyingResponse :: "jsstring \<Rightarrow> app_state \<Rightarrow> app_state \<times> jsstring" where
  "handleClarifyingResponse clarifyingMessage st = handleSubmit_start clarifyingMessage st"

definition resetForm :: "app_state \<Rightarrow> app_state" where
  "resetForm st = st\<lparr>result := None, error := None\<rparr>"

definition handleLogin :: "json_object option \<Rightarrow> app_state \<Rightarrow> app_state" where
  "handleLogin user_record st = st\<lparr>isAuthenticated := True, currentUser := user_record\<rparr>"

definition handleLogout :: "app_state \<Rightarrow> app_state" where
  "handleLogout st =
     st\<lparr>isAuthenticated := False, currentUser := None, result := None, error := None\<rparr>"

subsection \<open>Loading the reference data\<close>

text \<open>
  How one of the two \<^verbatim>\<open>axios.get\<close> promises settles. \<open>Resolves None\<close> is a response whose
  \<^verbatim>\<open>data\<close> is null or undefined (reading a property of it throws); \<open>Resolves (Some None)\<close>
  is a body without the list (the \<^verbatim>\<open>|| []\<close> branch); \<open>Resolves (Some (Some xs))\<close>
  carries the list.
\<close>

datatype get_outcome = Rejects | Resolves "jsstring list option option"

definition fallback_data :: "app_state \<Rightarrow> app_state" where
  "fallback_data st =
     st\<lparr>cities := [js ''jaipur'', js ''kolkata''], materials := [js ''paint'', js ''chemicals'']\<rparr>"

text \<open>
  \<^verbatim>\<open>loadData\<close>: \<^verbatim>\<open>Promise.all\<close> rejects as soon as one request rejects; an exception
  raised after \<^verbatim>\<open>setCities\<close> still reaches the \<^verbatim>\<open>catch\<close> block, which sets both lists.
\<close>

definition loadData :: "get_outcome \<Rightarrow> get_outcome \<Rightarrow> app_state \<Rightarrow> app_state" where
  "loadData citiesResponse materialsResponse st =
     (case (citiesResponse, materialsResponse) of
        (Resolves cdata, Resolves mdata) \<Rightarrow>
          (case cdata of
             None \<Rightarrow> fallback_data st
           | Some cs \<Rightarrow>
               (case mdata of
                  None \<Rightarrow> fallback_data (st\<lparr>cities := (case cs of Some xs \<Rightarrow> xs | None \<Rightarrow> [])\<rparr>)
                | Some ms \<Rightarrow>
                    st\<lparr>cities := (case cs of Some xs \<Rightarrow> xs | None \<Rightarrow> []),
                       materials := (case ms of Some xs \<Rightarrow> xs | None \<Rightarrow> [])\<rparr>))
      | _ \<Rightarrow> fallback_data st)"

text \<open>
  The label of an option of the city and material selects:
  \<^verbatim>\<open>city.charAt(0).toUpperCase() + city.slice(1)\<close>. \<^verbatim>\<open>toUpperCase\<close> is modelled on ASCII,
  where it maps \<^verbatim>\<open>a..z\<close> to \<^verbatim>\<open>A..Z\<close>; \<open>None\<close> stands for a first code unit outside ASCII,
  where the Unicode case mapping applies.
\<close>

definition toUpperCase_ascii :: "code_unit \<Rightarrow> code_unit option" where
  "toUpperCase_ascii c =
     (if 0x61 \<le> c \<and> c \<le> 0x7A then Some (c - 0x20) else if c < 0x80 then Some c else None)"

definition option_label :: "jsstring \<Rightarrow> jsstring option" where
  "option_label s =
     (case s of [] \<Rightarrow> Some [] | c # cs \<Rightarrow> map_option (\<lambda>u. u # cs) (toUpperCase_ascii c))"

section \<open>ParcelResult\<close>

text \<open>\<^verbatim>\<open>message.startsWith(...)\<close> with the one-character string U+2753.\<close>

definition isClarifyingQuestion :: "jsstring \<Rightarrow> bool" where
  "isClarifyingQuestion msg \<longleftrightarrow> prefix [0x2753] msg"

text \<open>
  Both patterns of \<^verbatim>\<open>ParcelResult\<close> are a literal followed by one capture group, a character
  class under \<^verbatim>\<open>+\<close>. \<^verbatim>\<open>String.prototype.match\<close> tries each start position from the left;
  at a position the pattern matches when the literal is there and at least one character of
  the class follows, and the greedy group captures the longest run of the class.
\<close>

fun match_literal_class :: "jsstring \<Rightarrow> (code_unit \<Rightarrow> bool) \<Rightarrow> jsstring \<Rightarrow> jsstring option" where
  "match_literal_class lit cls [] = None"
| "match_literal_class lit cls (c # cs) =
     (if prefix lit (c # cs) \<and> takeWhile cls (drop (length lit) (c # cs)) \<noteq> []
      then Some (takeWhile cls (drop (length lit) (c # cs)))
      else match_literal_class lit cls cs)"

text \<open>\<^verbatim>\<open>/Parcel ID: ([^\n]+)/\<close>: the class is every code unit but LF.\<close>

definition parcelIdMatch :: "jsstring \<Rightarrow> jsstring option" where
  "parcelIdMatch msg = match_literal_class (js ''Parcel ID: '') (\<lambda>c. c \<noteq> 0x0A) msg"

text \<open>The class \<^verbatim>\<open>[0-9,]\<close>: a decimal digit or the comma.\<close>

definition digit_or_comma :: "code_unit \<Rightarrow> bool" where
  "digit_or_comma c \<longleftrightarrow> (0x30 \<le> c \<and> c \<le> 0x39) \<or> c = 0x2C"

text \<open>The decimal digits alone, the class \<^verbatim>\<open>[0-9]\<close>.\<close>

definition digit :: "code_unit \<Rightarrow> bool" where
  "digit c \<longleftrightarrow> 0x30 \<le> c \<and> c \<le> 0x39"

text \<open>The literal of the cost pattern: \<^verbatim>\<open>Cost: \<close> and the rupee sign U+20B9.\<close>

definition cost_literal :: jsstring where
  "cost_literal = js ''Cost: '' @ [0x20B9]"

definition costMatch :: "jsstring \<Rightarrow> jsstring option" where
  "costMatch msg = match_literal_class cost_literal digit_or_comma msg"

definition parcelId :: "jsstring \<Rightarrow> jsstring" where
  "parcelId msg = (case parcelIdMatch msg of Some g \<Rightarrow> g | None \<Rightarrow> js ''N/A'')"

definition cost :: "jsstring \<Rightarrow> jsstring" where
  "cost msg = (case costMatch msg of Some g \<Rightarrow> g | None \<Rightarrow> js ''29997'')"

text \<open>
  What the component renders. The clarifying card shows the message and an input for the
  answer. The result card shows the success flag, the summary cards (parcel ID and cost,
  under \<^verbatim>\<open>success && parcel_info\<close>) and the failure text (under \<^verbatim>\<open>!success\<close>).
\<close>

record summary_cards =
  shown_parcelId :: jsstring
  shown_cost :: jsstring

datatype view =
  ClarifyingCard jsstring
| ResultCard bool "summary_cards option" "jsstring option"

definition ParcelResult :: "response_data option \<Rightarrow> view option" where
  "ParcelResult res =
     (case res of
        None \<Rightarrow> None
      | Some r \<Rightarrow>
          Some (if isClarifyingQuestion (message r) then ClarifyingCard (message r)
                else ResultCard (success r)
                       (if success r \<and> parcel_info r \<noteq> None
                        then Some \<lparr>shown_parcelId = parcelId (message r),
                                    shown_cost = cost (message r)\<rparr>
                        else None)
                       (if \<not> success r then Some (message r) else None)))"

text \<open>
  \<^verbatim>\<open>handleClarifyingSubmit\<close> of the clarifying card, with \<^verbatim>\<open>onClarifyingResponse\<close> given
  (as \<^verbatim>\<open>App\<close> gives it): the argument of the call, or \<open>None\<close> when nothing is called.
\<close>

definition handleClarifyingSubmit :: "jsstring \<Rightarrow> jsstring option" where
  "handleClarifyingSubmit clarifyingInput =
     (if truthy (trim clarifyingInput) then Some (trim clarifyingInput) else None)"

section \<open>The user interface as a transition system\<close>

text \<open>
  The events through which the components call \<^verbatim>\<open>App.handleSubmit\<close> and the other state
  changes of \<^verbatim>\<open>App\<close>. Each handler runs up to its \<^verbatim>\<open>await\<close> and the view is rendered again
  before the next event, so a control is available to an event exactly as the state renders
  it:
  \<^item> \<open>SubmitForm f\<close>: the form of \<^verbatim>\<open>ParcelForm\<close> is submitted with component state \<open>f\<close>;
    the form is rendered only when authenticated, and its submit button carries
    \<^verbatim>\<open>disabled={!isFormValid || isLoading}\<close>;
  \<^item> \<open>SubmitClarifying t\<close>: the answer \<open>t\<close> is submitted on the clarifying card (button or
    Enter key), which \<^verbatim>\<open>App\<close> renders under \<^verbatim>\<open>{result && ...}\<close> when authenticated;
  \<^item> \<open>Settle k out\<close>: the \<open>k\<close>-th request in flight settles with \<open>out\<close>;
  \<^item> \<open>Reset\<close>: \<^verbatim>\<open>resetForm\<close>, from the button of the error box (rendered under
    \<^verbatim>\<open>{error && ...}\<close>) and from the buttons of the result cards;
  \<^item> \<open>Login u\<close> and \<open>Logout\<close>: \<^verbatim>\<open>handleLogin\<close> from the login page, \<^verbatim>\<open>handleLogout\<close> from
    the header;
  \<^item> \<open>DataLoaded c m\<close>: the two reference-data requests of \<^verbatim>\<open>loadData\<close> settle; they are
    sent when the user is authenticated and settle at any later time.
  The state of the system is the state of \<^verbatim>\<open>App\<close> and the bodies of the
  \<^verbatim>\<open>POST /api/create-parcel\<close> requests that are sent and not yet settled.
\<close>

datatype event =
  SubmitForm parcel_form
| SubmitClarifying jsstring
| Settle nat post_outcome
| Reset
| Login "json_object option"
| Logout
| DataLoaded get_outcome get_outcome

record ui =
  app :: app_state
  in_flight :: "jsstring list"

definition call_handleSubmit :: "jsstring \<Rightarrow> ui \<Rightarrow> ui" where
  "call_handleSubmit msg u =
     (case handleSubmit_start msg (app u) of
        (st, body) \<Rightarrow> \<lparr>app = st, in_flight = in_flight u @ [body]\<rparr>)"

definition remove_nth :: "nat \<Rightarrow> 'a list \<Rightarrow> 'a list" where
  "remove_nth k xs = take k xs @ drop (Suc k) xs"

text \<open>The state after an event, or \<open>None\<close> when the rendered view does not offer the event.\<close>

fun ui_step :: "ui \<Rightarrow> event \<Rightarrow> ui option" where
  "ui_step u (SubmitForm f) =
     (if isAuthenticated (app u) \<and> \<not> submit_disabled f (isLoading (app u))
      then (case ParcelForm_handleSubmit f of
              None \<Rightarrow> Some u
            | Some msg \<Rightarrow> Some (call_handleSubmit msg u))
      else None)"
| "ui_step u (SubmitClarifying t) =
     (if isAuthenticated (app u)
      then (case ParcelResult (result (app u)) of
              Some (ClarifyingCard q) \<Rightarrow>
                (case handleClarifyingSubmit t of
                   None \<Rightarrow> Some u
                 | Some msg \<Rightarrow>
                     (case handleClarifyingResponse msg (app u) of
                        (st, body) \<Rightarrow> Some \<lparr>app = st, in_flight = in_flight u @ [body]\<rparr>))
            | _ \<Rightarrow> None)
      else None)"
| "ui_step u (Settle k out) =
     (if k < length (in_flight u)
      then Some \<lparr>app = handleSubmit_settle out (app u), in_flight = remove_nth k (in_flight u)\<rparr>
      else None)"
| "ui_step u Reset =
     (if isAuthenticated (app u) \<and>
         ((case error (app u) of Some t \<Rightarrow> truthy t | None \<Rightarrow> False) \<or> result (app u) \<noteq> None)
      then Some (u\<lparr>app := resetForm (app u)\<rparr>)
      else None)"
| "ui_step u (Login usr) =
     (if isAuthenticated (app u) then None else Some (u\<lparr>app := handleLogin usr (app u)\<rparr>))"
| "ui_step u Logout =
     (if isAuthenticated (app u) then Some (u\<lparr>app := handleLogout (app u)\<rparr>) else None)"
| "ui_step u (DataLoaded c m) = Some (u\<lparr>app := loadData c m (app u)\<rparr>)"

fun ui_run :: "ui \<Rightarrow> event list \<Rightarrow> ui option" where
  "ui_run u [] = Some u"
| "ui_run u (e # es) = (case ui_step u e of None \<Rightarrow> None | Some u' \<Rightarrow> ui_run u' es)"

text \<open>
  The state of a mounted \<^verbatim>\<open>App\<close> after \<^verbatim>\<open>checkAuth\<close>, which copies the answers of
  \<^verbatim>\<open>authService\<close>; no request is in flight.
\<close>

definition ui_initial :: "bool \<Rightarrow> json_object option \<Rightarrow> ui" where
  "ui_initial authenticated user =
     \<lparr>app = \<lparr>isAuthenticated = authenticated, currentUser = user, isLoading = False,
             result = None, error = None, cities = [], materials = []\<rparr>,
      in_flight = []\<rparr>"

section \<open>SharedPref and AuthService\<close>





















section \<open>The completeness validator\<close>

text \<open>
  Modelled from the spec: the Entity Set and the Completeness Validator are not among the
  sources, which are the front end only and hold no entity set. The spec gives the five
  required fields in the order company, originCity, destinationCity, weightKg, material; a
  status \<open>unset\<close>, \<open>stated\<close> (with its value) or \<open>invalid\<close> (with the original text) for each
  field; and as the output of the validator either \<open>Complete\<close> or the ordered list of
  \<open>(field, reason)\<close> with reason \<open>missing\<close> or \<open>invalid:<originalText>\<close>.
\<close>

datatype field = Company | OriginCity | DestinationCity | WeightKg | Material

datatype 'v field_status = Unset | Stated 'v | Invalid jsstring

type_synonym 'v entity_set = "field \<Rightarrow> 'v field_status"

datatype reason = Missing | InvalidText jsstring

datatype verdict = Complete | Incomplete "(field \<times> reason) list"

definition required_fields :: "field list" where
  "required_fields = [Company, OriginCity, DestinationCity, WeightKg, Material]"

fun field_rank :: "field \<Rightarrow> nat" where
  "field_rank Company = 0"
| "field_rank OriginCity = 1"
| "field_rank DestinationCity = 2"
| "field_rank WeightKg = 3"
| "field_rank Material = 4"

definition outstanding :: "'v entity_set \<Rightarrow> (field \<times> reason) list" where
  "outstanding es =
     List.map_filter
       (\<lambda>f. case es f of
               Unset \<Rightarrow> Some (f, Missing)
             | Invalid t \<Rightarrow> Some (f, InvalidText t)
             | Stated v \<Rightarrow> None)
       required_fields"

definition completeness_validator :: "'v entity_set \<Rightarrow> verdict" where
  "completeness_validator es =
     (if outstanding es = [] then Complete else Incomplete (outstanding es))"

text \<open>
  Modelled from the spec: the Entity Set that results from the fields extracted one after
  the other, starting from the set with every field unset, a later extraction of a field
  replacing an earlier one.
\<close>

definition entity_set_of :: "(field \<times> 'v field_status) list \<Rightarrow> 'v entity_set" where
  "entity_set_of xs = fold (\<lambda>(f, s) es. es(f := s)) xs (\<lambda>f. Unset)"

section \<open>The weight of a parcel\<close>

text \<open>
  Modelled from the spec: the weight validation of the Reference Resolver is not among the
  sources. The front end assigns no status to a weight: in free-text mode the weight is part
  of the message and is not looked at, and the weight field of the quick form is a number
  input whose checks are the browser's. The spec has a candidate weight absent or given; a
  given weight is validated numerically, as integer or decimal kilograms greater than 0; a
  non-numeric or non-positive value is \<open>invalid\<close>, the original text being kept for the
  reason; an absent candidate leaves the field \<open>unset\<close>. A candidate is its original text
  and the number of kilograms it reads as, \<open>None\<close> when it is not a number.
\<close>

record weight_candidate =
  original_text :: jsstring
  kilograms :: "rat option"

definition resolve_weight :: "weight_candidate option \<Rightarrow> rat field_status" where
  "resolve_weight c =
     (case c of
        None \<Rightarrow> Unset
      | Some x \<Rightarrow>
          (case kilograms x of
             None \<Rightarrow> Invalid (original_text x)
           | Some w \<Rightarrow> if 0 < w then Stated w else Invalid (original_text x)))"

text \<open>What holds of every reachable state of the user interface.\<close>

definition ui_inv :: "ui \<Rightarrow> bool" where
  "ui_inv u \<longleftrightarrow>
     length (in_flight u) \<le> 1 \<and> (isLoading (app u) \<longleftrightarrow> in_flight u \<noteq> []) \<and>
     (isLoading (app u) \<longrightarrow> result (app u) = None)"


section \<open>Properties of trim\<close>

lemma rtrim_take:
  "rev (dropWhile P (rev xs)) = take (length xs - length (takeWhile P (rev xs))) xs"
proof -
  have "dropWhile P (rev xs) = drop (length (takeWhile P (rev xs))) (rev xs)"
    by (rule dropWhile_eq_drop)
  then show ?thesis by (simp add: rev_drop)
qed

lemma trim_last: "trim s \<noteq> [] \<Longrightarrow> \<not> is_js_whitespace (last (trim s))"
  unfolding trim_def by (simp add: last_rev hd_dropWhile)

lemma trim_hd:
  assumes "trim s \<noteq> []"
  shows "\<not> is_js_whitespace (hd (trim s))"
proof -
  let ?d = "dropWhile is_js_whitespace s"
  obtain n where n: "trim s = take n ?d"
    unfolding trim_def using rtrim_take by blast
  from assms n have "?d \<noteq> []" "0 < n" by auto
  then have "hd (trim s) = hd ?d" using n by (cases ?d; cases n) auto
  moreover have "\<not> is_js_whitespace (hd ?d)"
    using \<open>?d \<noteq> []\<close> by (rule hd_dropWhile)
  ultimately show ?thesis by simp
qed

lemma dropWhile_self: "xs = [] \<or> \<not> P (hd xs) \<Longrightarrow> dropWhile P xs = xs"
  by (cases xs) auto

lemma trim_idem: "trim (trim s) = trim s"
proof (cases "trim s = []")
  case True
  have "trim [] = []" by (simp add: trim_def)
  with True show ?thesis by simp
next
  case False
  have a: "dropWhile is_js_whitespace (trim s) = trim s"
    using trim_hd [OF False] by (intro dropWhile_self) simp
  have "hd (rev (trim s)) = last (trim s)" using False by (simp add: hd_rev)
  then have b: "dropWhile is_js_whitespace (rev (trim s)) = rev (trim s)"
    using trim_last [OF False] by (intro dropWhile_self) simp
  show ?thesis
    by (subst (1) trim_def) (simp only: a b rev_rev_ident)
qed

section \<open>ParcelForm: what is submitted and when the button is disabled\<close>

text \<open>
  Claim C10. In free-text mode \<^verbatim>\<open>handleSubmit\<close> calls \<^verbatim>\<open>onSubmit\<close> only with the trimmed
  message, and only when that is not empty: the argument has no white space at either end,
  and a message of white space only is not submitted. The submit button is disabled exactly
  when the form is invalid or a request is in flight; in quick-form mode the form is valid
  exactly when each of company, fromCity, toCity, weight and material is non-blank after
  trimming, and in free-text mode exactly when the trimmed message is not empty.
\<close>

theorem ParcelForm_submit_trimmed_and_gated:
  "(\<not> useQuickForm f \<longrightarrow>
      (case ParcelForm_handleSubmit f of
         None \<Rightarrow> trim (formMessage f) = []
       | Some m \<Rightarrow> m = trim (formMessage f) \<and> m \<noteq> [] \<and> trim m = m \<and>
                  \<not> is_js_whitespace (hd m) \<and> \<not> is_js_whitespace (last m))) \<and>
   (submit_disabled f loading \<longleftrightarrow> \<not> isFormValid f \<or> loading) \<and>
   (useQuickForm f \<longrightarrow>
      (isFormValid f \<longleftrightarrow>
         trim (company (quickFormData f)) \<noteq> [] \<and> trim (fromCity (quickFormData f)) \<noteq> [] \<and>
         trim (toCity (quickFormData f)) \<noteq> [] \<and> trim (weight (quickFormData f)) \<noteq> [] \<and>
         trim (material (quickFormData f)) \<noteq> [])) \<and>
   (\<not> useQuickForm f \<longrightarrow> (isFormValid f \<longleftrightarrow> trim (formMessage f) \<noteq> []))"
proof (intro conjI impI)
  assume free: "\<not> useQuickForm f"
  show "case ParcelForm_handleSubmit f of
          None \<Rightarrow> trim (formMessage f) = []
        | Some m \<Rightarrow> m = trim (formMessage f) \<and> m \<noteq> [] \<and> trim m = m \<and>
                   \<not> is_js_whitespace (hd m) \<and> \<not> is_js_whitespace (last m)"
  proof (cases "trim (formMessage f) = []")
    case True
    with free show ?thesis by (simp add: ParcelForm_handleSubmit_def truthy_def)
  next
    case False
    with free have "ParcelForm_handleSubmit f = Some (trim (formMessage f))"
      by (simp add: ParcelForm_handleSubmit_def truthy_def)
    with False show ?thesis
      by (simp add: trim_idem trim_hd trim_last)
  qed
next
  show "submit_disabled f loading \<longleftrightarrow> \<not> isFormValid f \<or> loading"
    by (simp add: submit_disabled_def)
next
  assume "useQuickForm f"
  then show "isFormValid f \<longleftrightarrow>
         trim (company (quickFormData f)) \<noteq> [] \<and> trim (fromCity (quickFormData f)) \<noteq> [] \<and>
         trim (toCity (quickFormData f)) \<noteq> [] \<and> trim (weight (quickFormData f)) \<noteq> [] \<and>
         trim (material (quickFormData f)) \<noteq> []"
    by (simp add: isFormValid_def Object_values_def)
next
  assume "\<not> useQuickForm f"
  then show "isFormValid f \<longleftrightarrow> trim (formMessage f) \<noteq> []"
    by (simp add: isFormValid_def)
qed

theorem ParcelForm_submit_trimmed_and_gated_witness:
  "ParcelForm_handleSubmit
     \<lparr>formMessage = js ''  50kg paint '', useQuickForm = False,
      quickFormData = \<lparr>company = [], fromCity = [], toCity = [], weight = [], material = []\<rparr>\<rparr>
   = Some (js ''50kg paint'') \<and>
   trim (js ''50kg paint'') = js ''50kg paint'' \<and>
   submit_disabled
     \<lparr>formMessage = js ''  50kg paint '', useQuickForm = False,
      quickFormData = \<lparr>company = [], fromCity = [], toCity = [], weight = [], material = []\<rparr>\<rparr>
     True \<and>
   \<not> isFormValid
     \<lparr>formMessage = [], useQuickForm = True,
      quickFormData = \<lparr>company = js ''ABC'', fromCity = js ''jaipur'', toCity = js ''kolkata'',
                        weight = js '' '', material = js ''paint''\<rparr>\<rparr>"
  using ParcelForm_submit_trimmed_and_gated
      [of "\<lparr>formMessage = js ''  50kg paint '', useQuickForm = False,
            quickFormData = \<lparr>company = [], fromCity = [], toCity = [], weight = [],
                              material = []\<rparr>\<rparr>" True]
    ParcelForm_submit_trimmed_and_gated
      [of "\<lparr>formMessage = [], useQuickForm = True,
            quickFormData = \<lparr>company = js ''ABC'', fromCity = js ''jaipur'',
                              toCity = js ''kolkata'', weight = js '' '',
                              material = js ''paint''\<rparr>\<rparr>" True]
  by (simp add: ParcelForm_handleSubmit_def truthy_def trim_def js_def is_js_whitespace_def)

section \<open>ParcelResult: the question card and the parsed summary\<close>

text \<open>
  The search is characterised by the occurrences of the pattern: it finds nothing exactly
  when the literal is nowhere followed by a character of the class, and what it captures is
  a maximal run of the class that follows an occurrence of the literal.
\<close>

lemma match_literal_class_None_iff:
  "match_literal_class lit cls s = None \<longleftrightarrow>
     \<not> (\<exists>pre x rest. s = pre @ lit @ x # rest \<and> cls x)"
proof (induction s)
  case Nil
  show ?case by simp
next
  case (Cons c cs)
  let ?z = "drop (length lit) (c # cs)"
  show ?case
  proof (cases "prefix lit (c # cs) \<and> takeWhile cls ?z \<noteq> []")
    case True
    then obtain zs where zs: "c # cs = lit @ zs" by (auto simp: prefix_def)
    then have z: "?z = zs" by simp
    with True obtain x rest where "zs = x # rest" "cls x"
      by (cases zs) (auto split: if_splits)
    with zs have "c # cs = [] @ lit @ x # rest \<and> cls x" by simp
    then have "\<exists>pre x rest. c # cs = pre @ lit @ x # rest \<and> cls x" by blast
    with True show ?thesis by simp
  next
    case False
    then have eq: "match_literal_class lit cls (c # cs) = match_literal_class lit cls cs"
      by auto
    have dec: "(\<exists>pre x rest. c # cs = pre @ lit @ x # rest \<and> cls x) \<longleftrightarrow>
          (\<exists>pre x rest. cs = pre @ lit @ x # rest \<and> cls x)"
    proof
      assume "\<exists>pre x rest. c # cs = pre @ lit @ x # rest \<and> cls x"
      then obtain pre x rest where d: "c # cs = pre @ lit @ x # rest" "cls x" by blast
      show "\<exists>pre x rest. cs = pre @ lit @ x # rest \<and> cls x"
      proof (cases pre)
        case Nil
        with d have "prefix lit (c # cs)" "?z = x # rest" by (auto simp: prefix_def)
        with d False show ?thesis by simp
      next
        case (Cons p ps)
        with d have "cs = ps @ lit @ x # rest" by simp
        with d show ?thesis by blast
      qed
    next
      assume "\<exists>pre x rest. cs = pre @ lit @ x # rest \<and> cls x"
      then obtain pre x rest where "cs = pre @ lit @ x # rest" "cls x" by blast
      then have "c # cs = (c # pre) @ lit @ x # rest \<and> cls x" by simp
      then show "\<exists>pre x rest. c # cs = pre @ lit @ x # rest \<and> cls x" by blast
    qed
    show ?thesis by (simp only: eq Cons.IH dec)
  qed
qed

lemma match_literal_class_Some:
  "match_literal_class lit cls s = Some g \<Longrightarrow>
     g \<noteq> [] \<and> list_all cls g \<and>
     (\<exists>pre rest. s = pre @ lit @ g @ rest \<and> (rest = [] \<or> \<not> cls (hd rest)))"
proof (induction s)
  case Nil
  then show ?case by simp
next
  case (Cons c cs)
  let ?z = "drop (length lit) (c # cs)"
  show ?case
  proof (cases "prefix lit (c # cs) \<and> takeWhile cls ?z \<noteq> []")
    case True
    with Cons.prems have g: "g = takeWhile cls ?z" by simp
    from True obtain zs where zs: "c # cs = lit @ zs" by (auto simp: prefix_def)
    then have z: "?z = zs" by simp
    have "c # cs = [] @ lit @ g @ dropWhile cls zs" using zs g z by simp
    moreover have "dropWhile cls zs = [] \<or> \<not> cls (hd (dropWhile cls zs))"
      using hd_dropWhile [of cls zs] by blast
    moreover have "list_all cls g" unfolding g by (auto simp: list_all_iff dest: set_takeWhileD)
    moreover have "g \<noteq> []" using True g by simp
    ultimately show ?thesis by blast
  next
    case False
    with Cons.prems have "match_literal_class lit cls cs = Some g" by simp
    from Cons.IH [OF this] obtain pre rest where
      "g \<noteq> []" "list_all cls g" "cs = pre @ lit @ g @ rest" "rest = [] \<or> \<not> cls (hd rest)"
      by blast
    then have "c # cs = (c # pre) @ lit @ g @ rest" by simp
    with \<open>g \<noteq> []\<close> \<open>list_all cls g\<close> \<open>rest = [] \<or> \<not> cls (hd rest)\<close> show ?thesis by blast
  qed
qed


text \<open>
  Claim C9 as stated does not hold. The message \<^verbatim>\<open>Cost: \<close>, rupee sign, comma has no
  occurrence of the literal followed by a digit (the search with the class of the digits
  alone finds nothing), and the cost pattern still matches it, the comma being in its
  class: the cost shown is the comma, not \<^verbatim>\<open>29997\<close>.
\<close>

theorem cost_pattern_captures_comma_counterexample:
  "match_literal_class cost_literal digit (js ''Cost: '' @ [0x20B9] @ js '','') = None \<and>
   ParcelResult
     (Some \<lparr>success = True, message = js ''Cost: '' @ [0x20B9] @ js '','',
            parcel_info = Some []\<rparr>) =
     Some (ResultCard True (Some \<lparr>shown_parcelId = js ''N/A'', shown_cost = js '',''\<rparr>) None) \<and>
   js '','' \<noteq> js ''29997''"
  by (simp add: ParcelResult_def isClarifyingQuestion_def parcelId_def parcelIdMatch_def
      cost_def costMatch_def cost_literal_def js_def digit_or_comma_def digit_def)

text \<open>
  Claim C9, amended. \<^verbatim>\<open>ParcelResult\<close> renders the clarifying card exactly when the message
  starts with the character U+2753; every other message is rendered as the result card,
  with the success flag of the response, the summary cards under
  \<^verbatim>\<open>success && parcel_info\<close> and the failure text under \<^verbatim>\<open>!success\<close>. When the message has
  no occurrence of \<^verbatim>\<open>Cost: \<close> with the rupee sign followed by a digit or a comma, the cost is
  the constant \<^verbatim>\<open>29997\<close>; when it has no occurrence of \<^verbatim>\<open>Parcel ID: \<close> followed by a
  character other than a line feed, the parcel ID is \<^verbatim>\<open>N/A\<close>.
\<close>

theorem ParcelResult_clarifying_iff_question_mark:
  "((\<exists>q. ParcelResult (Some r) = Some (ClarifyingCard q)) \<longleftrightarrow> prefix [0x2753] (message r)) \<and>
   (\<not> prefix [0x2753] (message r) \<longrightarrow>
      ParcelResult (Some r) =
        Some (ResultCard (success r)
                (if success r \<and> parcel_info r \<noteq> None
                 then Some \<lparr>shown_parcelId = parcelId (message r), shown_cost = cost (message r)\<rparr>
                 else None)
                (if \<not> success r then Some (message r) else None))) \<and>
   (\<not> (\<exists>pre x rest. message r = pre @ cost_literal @ x # rest \<and> digit_or_comma x) \<longrightarrow>
      cost (message r) = js ''29997'') \<and>
   (\<not> (\<exists>pre x rest. message r = pre @ js ''Parcel ID: '' @ x # rest \<and> x \<noteq> 0x0A) \<longrightarrow>
      parcelId (message r) = js ''N/A'')"
proof (intro conjI impI)
  show "(\<exists>q. ParcelResult (Some r) = Some (ClarifyingCard q)) \<longleftrightarrow> prefix [0x2753] (message r)"
    by (simp add: ParcelResult_def isClarifyingQuestion_def)
next
  assume "\<not> prefix [0x2753] (message r)"
  then show "ParcelResult (Some r) =
        Some (ResultCard (success r)
                (if success r \<and> parcel_info r \<noteq> None
                 then Some \<lparr>shown_parcelId = parcelId (message r), shown_cost = cost (message r)\<rparr>
                 else None)
                (if \<not> success r then Some (message r) else None))"
    by (simp add: ParcelResult_def isClarifyingQuestion_def)
next
  assume "\<not> (\<exists>pre x rest. message r = pre @ cost_literal @ x # rest \<and> digit_or_comma x)"
  then have "costMatch (message r) = None"
    unfolding costMatch_def by (simp only: match_literal_class_None_iff not_False_eq_True)
  then show "cost (message r) = js ''29997''" by (simp add: cost_def)
next
  assume "\<not> (\<exists>pre x rest. message r = pre @ js ''Parcel ID: '' @ x # rest \<and> x \<noteq> 0x0A)"
  then have "parcelIdMatch (message r) = None"
    unfolding parcelIdMatch_def by (simp only: match_literal_class_None_iff not_False_eq_True)
  then show "parcelId (message r) = js ''N/A''" by (simp add: parcelId_def)
qed

theorem ParcelResult_clarifying_iff_question_mark_witness:
  "ParcelResult (Some \<lparr>success = True, message = js ''Parcel created'', parcel_info = Some []\<rparr>) =
     Some (ResultCard True (Some \<lparr>shown_parcelId = js ''N/A'', shown_cost = js ''29997''\<rparr>) None) \<and>
   ParcelResult (Some \<lparr>success = True, message = 0x2753 # js '' Which company?'',
                        parcel_info = None\<rparr>) =
     Some (ClarifyingCard (0x2753 # js '' Which company?''))"
  using ParcelResult_clarifying_iff_question_mark
      [of "\<lparr>success = True, message = js ''Parcel created'', parcel_info = Some []\<rparr>"]
    ParcelResult_clarifying_iff_question_mark
      [of "\<lparr>success = True, message = 0x2753 # js '' Which company?'', parcel_info = None\<rparr>"]
  by (simp add: ParcelResult_def isClarifyingQuestion_def parcelId_def parcelIdMatch_def
      cost_def costMatch_def cost_literal_def js_def digit_or_comma_def)

section \<open>App: what a settled submission leaves in the state\<close>

text \<open>
  Claim C2 as stated does not hold. A successful response whose message gives the parcel ID
  \<^verbatim>\<open>PCL42\<close> and the cost as \<^verbatim>\<open>Cost: Rs. 1,500\<close> is held by \<^verbatim>\<open>App\<close> as it came, and
  \<^verbatim>\<open>ParcelResult\<close> shows the built-in cost \<^verbatim>\<open>29997\<close> for it.
\<close>

theorem success_surfaces_built_in_cost_counterexample:
  "result (handleSubmit_settle
       (Resolved \<lparr>success = True,
                  message = js ''Parcel ID: PCL42'' @ [0x0A] @ js ''Cost: Rs. 1,500'',
                  parcel_info = Some []\<rparr>)
       (fst (handleSubmit_start (js ''Create a parcel for ABC from Jaipur to Kolkata, 50kg paint'')
               (app (ui_initial True None))))) =
     Some \<lparr>success = True,
           message = js ''Parcel ID: PCL42'' @ [0x0A] @ js ''Cost: Rs. 1,500'',
           parcel_info = Some []\<rparr> \<and>
   ParcelResult
     (Some \<lparr>success = True,
            message = js ''Parcel ID: PCL42'' @ [0x0A] @ js ''Cost: Rs. 1,500'',
            parcel_info = Some []\<rparr>) =
     Some (ResultCard True
             (Some \<lparr>shown_parcelId = js ''PCL42'', shown_cost = js ''29997''\<rparr>) None)"
  by (simp add: handleSubmit_settle_def handleSubmit_start_def ui_initial_def ParcelResult_def
      isClarifyingQuestion_def parcelId_def parcelIdMatch_def cost_def costMatch_def
      cost_literal_def js_def digit_or_comma_def)

text \<open>
  Claim C2, amended. When a submission settles with a successful response, \<^verbatim>\<open>App\<close> holds
  exactly the response body as its result, leaves the error as it was and is no longer
  loading. The cost that \<^verbatim>\<open>ParcelResult\<close> derives from it is text of the response message: a
  maximal run of digits and commas that follows an occurrence of \<^verbatim>\<open>Cost: \<close> with the rupee
  sign; it is the built-in \<^verbatim>\<open>29997\<close> exactly when the message has no such occurrence.
  Likewise the parcel ID is the rest of the line after an occurrence of \<^verbatim>\<open>Parcel ID: \<close>, and
  the built-in \<^verbatim>\<open>N/A\<close> exactly when no such occurrence has a non-empty rest of line.
\<close>

theorem success_result_held_and_parsed:
  "success d \<Longrightarrow>
     result (handleSubmit_settle (Resolved d) st) = Some d \<and>
     error (handleSubmit_settle (Resolved d) st) = error st \<and>
     \<not> isLoading (handleSubmit_settle (Resolved d) st) \<and>
     (case costMatch (message d) of
        Some g \<Rightarrow>
          cost (message d) = g \<and> g \<noteq> [] \<and> list_all digit_or_comma g \<and>
          (\<exists>pre rest. message d = pre @ cost_literal @ g @ rest \<and>
                      (rest = [] \<or> \<not> digit_or_comma (hd rest)))
      | None \<Rightarrow>
          cost (message d) = js ''29997'' \<and>
          \<not> (\<exists>pre x rest. message d = pre @ cost_literal @ x # rest \<and> digit_or_comma x)) \<and>
     (case parcelIdMatch (message d) of
        Some g \<Rightarrow>
          parcelId (message d) = g \<and> g \<noteq> [] \<and> list_all (\<lambda>c. c \<noteq> 0x0A) g \<and>
          (\<exists>pre rest. message d = pre @ js ''Parcel ID: '' @ g @ rest \<and>
                      (rest = [] \<or> hd rest = 0x0A))
      | None \<Rightarrow>
          parcelId (message d) = js ''N/A'' \<and>
          \<not> (\<exists>pre x rest. message d = pre @ js ''Parcel ID: '' @ x # rest \<and> x \<noteq> 0x0A))"
proof (intro conjI)
  assume s: "success d"
  show "result (handleSubmit_settle (Resolved d) st) = Some d"
    using s by (simp add: handleSubmit_settle_def)
  show "error (handleSubmit_settle (Resolved d) st) = error st"
    using s by (simp add: handleSubmit_settle_def)
  show "\<not> isLoading (handleSubmit_settle (Resolved d) st)"
    using s by (simp add: handleSubmit_settle_def)
  show "case costMatch (message d) of
        Some g \<Rightarrow>
          cost (message d) = g \<and> g \<noteq> [] \<and> list_all digit_or_comma g \<and>
          (\<exists>pre rest. message d = pre @ cost_literal @ g @ rest \<and>
                      (rest = [] \<or> \<not> digit_or_comma (hd rest)))
      | None \<Rightarrow>
          cost (message d) = js ''29997'' \<and>
          \<not> (\<exists>pre x rest. message d = pre @ cost_literal @ x # rest \<and> digit_or_comma x)"
  proof (cases "costMatch (message d)")
    case None
    moreover from None have
      "\<not> (\<exists>pre x rest. message d = pre @ cost_literal @ x # rest \<and> digit_or_comma x)"
      unfolding costMatch_def by (simp only: match_literal_class_None_iff not_False_eq_True)
    ultimately show ?thesis by (simp add: cost_def)
  next
    case (Some g)
    from match_literal_class_Some [OF Some [unfolded costMatch_def]] Some
    show ?thesis by (simp add: cost_def)
  qed
  show "case parcelIdMatch (message d) of
        Some g \<Rightarrow>
          parcelId (message d) = g \<and> g \<noteq> [] \<and> list_all (\<lambda>c. c \<noteq> 0x0A) g \<and>
          (\<exists>pre rest. message d = pre @ js ''Parcel ID: '' @ g @ rest \<and>
                      (rest = [] \<or> hd rest = 0x0A))
      | None \<Rightarrow>
          parcelId (message d) = js ''N/A'' \<and>
          \<not> (\<exists>pre x rest. message d = pre @ js ''Parcel ID: '' @ x # rest \<and> x \<noteq> 0x0A)"
  proof (cases "parcelIdMatch (message d)")
    case None
    moreover from None have
      "\<not> (\<exists>pre x rest. message d = pre @ js ''Parcel ID: '' @ x # rest \<and> x \<noteq> 0x0A)"
      unfolding parcelIdMatch_def by (simp only: match_literal_class_None_iff not_False_eq_True)
    ultimately show ?thesis by (simp add: parcelId_def)
  next
    case (Some g)
    from match_literal_class_Some [OF Some [unfolded parcelIdMatch_def]] Some
    show ?thesis by (simp add: parcelId_def)
  qed
qed

theorem success_result_held_and_parsed_witness:
  "success \<lparr>success = True,
            message = js ''Parcel ID: PCL42'' @ [0x0A] @ js ''Cost: '' @ [0x20B9] @ js ''1,500'',
            parcel_info = Some []\<rparr> \<and>
   cost (js ''Parcel ID: PCL42'' @ [0x0A] @ js ''Cost: '' @ [0x20B9] @ js ''1,500'') = js ''1,500'' \<and>
   parcelId (js ''Parcel ID: PCL42'' @ [0x0A] @ js ''Cost: '' @ [0x20B9] @ js ''1,500'') = js ''PCL42'' \<and>
   result (handleSubmit_settle
       (Resolved \<lparr>success = True,
            message = js ''Parcel ID: PCL42'' @ [0x0A] @ js ''Cost: '' @ [0x20B9] @ js ''1,500'',
            parcel_info = Some []\<rparr>) (app (ui_initial True None))) =
     Some \<lparr>success = True,
            message = js ''Parcel ID: PCL42'' @ [0x0A] @ js ''Cost: '' @ [0x20B9] @ js ''1,500'',
            parcel_info = Some []\<rparr>"
  using success_result_held_and_parsed
      [of "\<lparr>success = True,
            message = js ''Parcel ID: PCL42'' @ [0x0A] @ js ''Cost: '' @ [0x20B9] @ js ''1,500'',
            parcel_info = Some []\<rparr>" "app (ui_initial True None)"]
  by (simp add: parcelId_def parcelIdMatch_def cost_def costMatch_def cost_literal_def js_def
      digit_or_comma_def)

text \<open>
  Claim C3. The failing input is the response body
  \<^verbatim>\<open>{success: false, message: "route not serviced"}\<close>. \<^verbatim>\<open>handleSubmit\<close> puts the fixed text
  \<^verbatim>\<open>Failed to create parcel\<close> into the error and stores no result, so the reason of the
  rejection is not surfaced. The sibling paths keep the reason: a rejected request surfaces
  \<^verbatim>\<open>err.response.data.detail\<close> as it is, and the \<^verbatim>\<open>!success\<close> branch of \<^verbatim>\<open>ParcelResult\<close> would
  render the message of such a response, if \<^verbatim>\<open>App\<close> stored it.
\<close>

theorem rejection_reason_replaced_by_generic_message:
  "error (handleSubmit_settle
            (Resolved \<lparr>success = False, message = js ''route not serviced'', parcel_info = None\<rparr>)
            (fst (handleSubmit_start msg st))) = Some (js ''Failed to create parcel'') \<and>
   result (handleSubmit_settle
            (Resolved \<lparr>success = False, message = js ''route not serviced'', parcel_info = None\<rparr>)
            (fst (handleSubmit_start msg st))) = None \<and>
   js ''Failed to create parcel'' \<noteq> js ''route not serviced'' \<and>
   error (handleSubmit_settle (Rejected (Some (js ''route not serviced'')))
            (fst (handleSubmit_start msg st))) = Some (js ''route not serviced'') \<and>
   ParcelResult
     (Some \<lparr>success = False, message = js ''route not serviced'', parcel_info = None\<rparr>) =
     Some (ResultCard False None (Some (js ''route not serviced'')))"
  by (simp add: handleSubmit_settle_def handleSubmit_start_def ParcelResult_def
      isClarifyingQuestion_def truthy_def js_def)

text \<open>
  Claim C1. \<^verbatim>\<open>handleClarifyingResponse\<close> carries the comment "Append the clarifying response to
  the previous context and resubmit", and its body submits the answer alone: for every state
  and every answer the body of the request is the answer, and the result of the earlier turn
  is cleared. After the utterance \<^verbatim>\<open>Create a parcel from Jaipur to Kolkata, 50kg paint\<close> and
  the clarifying question that answers it, the answer \<^verbatim>\<open>ABC Company\<close> leaves exactly one
  request in flight, whose message is \<^verbatim>\<open>ABC Company\<close>: nothing of the first turn is sent
  again or kept.
\<close>

theorem clarifying_response_sent_without_context:
  "snd (handleClarifyingResponse clarifyingMessage st) = clarifyingMessage \<and>
   result (fst (handleClarifyingResponse clarifyingMessage st)) = None \<and>
   map_option in_flight
     (ui_run (ui_initial True None)
        [SubmitForm \<lparr>formMessage = js ''Create a parcel from Jaipur to Kolkata, 50kg paint'',
                     useQuickForm = False,
                     quickFormData = \<lparr>company = [], fromCity = [], toCity = [], weight = [],
                                       material = []\<rparr>\<rparr>,
         Settle 0 (Resolved \<lparr>success = True,
                             message = 0x2753 # js '' Which company is the parcel for?'',
                             parcel_info = None\<rparr>),
         SubmitClarifying (js ''ABC Company'')]) = Some [js ''ABC Company'']"
  by (simp add: handleClarifyingResponse_def handleSubmit_start_def handleSubmit_settle_def
      ui_initial_def submit_disabled_def isFormValid_def ParcelForm_handleSubmit_def
      call_handleSubmit_def remove_nth_def ParcelResult_def isClarifyingQuestion_def
      handleClarifyingSubmit_def truthy_def trim_def is_js_whitespace_def js_def)

section \<open>Reference data after a failed lookup\<close>

lemma ui_step_keeps_catalog:
  "ui_step u e = Some u' \<Longrightarrow> (\<forall>c m. e \<noteq> DataLoaded c m) \<Longrightarrow>
     cities (app u') = cities (app u) \<and> materials (app u') = materials (app u)"
  by (cases e)
    (auto simp: call_handleSubmit_def handleSubmit_start_def handleSubmit_settle_def
      handleClarifyingResponse_def resetForm_def handleLogin_def handleLogout_def
      split: if_splits option.splits view.splits post_outcome.splits prod.splits)

lemma ui_run_keeps_catalog:
  "ui_run u es = Some u' \<Longrightarrow> (\<forall>e\<in>set es. \<forall>c m. e \<noteq> DataLoaded c m) \<Longrightarrow>
     cities (app u') = cities (app u) \<and> materials (app u') = materials (app u)"
proof (induction es arbitrary: u)
  case Nil
  then show ?case by simp
next
  case (Cons e es)
  from Cons.prems obtain u1 where s: "ui_step u e = Some u1" and r: "ui_run u1 es = Some u'"
    by (auto split: option.splits)
  from Cons.prems have "\<forall>c m. e \<noteq> DataLoaded c m" by simp
  with s have "cities (app u1) = cities (app u) \<and> materials (app u1) = materials (app u)"
    by (rule ui_step_keeps_catalog)
  moreover from Cons.prems have "\<forall>e\<in>set es. \<forall>c m. e \<noteq> DataLoaded c m" by simp
  with r have "cities (app u') = cities (app u1) \<and> materials (app u') = materials (app u1)"
    by (rule Cons.IH)
  ultimately show ?case by simp
qed

text \<open>
  Claim C4. When the lookup fails (one of the two requests is rejected, or a response has no
  body to read), \<^verbatim>\<open>loadData\<close> leaves the fixed lists in the state: the cities \<^verbatim>\<open>jaipur\<close> and
  \<^verbatim>\<open>kolkata\<close>, the materials \<^verbatim>\<open>paint\<close> and \<^verbatim>\<open>chemicals\<close>, which the selects label Jaipur,
  Kolkata, Paint and Chemicals. Every later event but a new load keeps these lists.
\<close>

theorem loadData_failure_falls_back:
  "citiesResponse = Rejects \<or> materialsResponse = Rejects \<or>
   citiesResponse = Resolves None \<or> materialsResponse = Resolves None \<Longrightarrow>
     cities (loadData citiesResponse materialsResponse st) = [js ''jaipur'', js ''kolkata''] \<and>
     materials (loadData citiesResponse materialsResponse st) = [js ''paint'', js ''chemicals''] \<and>
     map option_label (cities (loadData citiesResponse materialsResponse st)) =
       [Some (js ''Jaipur''), Some (js ''Kolkata'')] \<and>
     map option_label (materials (loadData citiesResponse materialsResponse st)) =
       [Some (js ''Paint''), Some (js ''Chemicals'')] \<and>
     (\<forall>q es u'.
        ui_run \<lparr>app = loadData citiesResponse materialsResponse st, in_flight = q\<rparr> es = Some u' \<and>
        (\<forall>e\<in>set es. \<forall>c m. e \<noteq> DataLoaded c m) \<longrightarrow>
          cities (app u') = [js ''jaipur'', js ''kolkata''] \<and>
          materials (app u') = [js ''paint'', js ''chemicals''])"
proof -
  assume "citiesResponse = Rejects \<or> materialsResponse = Rejects \<or>
   citiesResponse = Resolves None \<or> materialsResponse = Resolves None"
  then have c: "cities (loadData citiesResponse materialsResponse st) =
      [js ''jaipur'', js ''kolkata'']"
    and m: "materials (loadData citiesResponse materialsResponse st) =
      [js ''paint'', js ''chemicals'']"
    by (auto simp: loadData_def fallback_data_def split: get_outcome.splits option.splits)
  have l: "map option_label [js ''jaipur'', js ''kolkata''] =
      [Some (js ''Jaipur''), Some (js ''Kolkata'')]"
    "map option_label [js ''paint'', js ''chemicals''] =
      [Some (js ''Paint''), Some (js ''Chemicals'')]"
    by (simp_all add: option_label_def toUpperCase_ascii_def js_def)
  have k: "cities (app u') = [js ''jaipur'', js ''kolkata''] \<and>
      materials (app u') = [js ''paint'', js ''chemicals'']"
    if "ui_run \<lparr>app = loadData citiesResponse materialsResponse st, in_flight = q\<rparr> es = Some u'"
      and "\<forall>e\<in>set es. \<forall>c m. e \<noteq> DataLoaded c m" for q es u'
    using ui_run_keeps_catalog [OF that] c m by simp
  from c m l k show ?thesis by (simp only: simp_thms) blast
qed

theorem loadData_failure_falls_back_witness:
  "cities (loadData Rejects (Resolves (Some (Some [js ''paint'']))) (app (ui_initial True None))) =
     [js ''jaipur'', js ''kolkata''] \<and>
   materials (loadData Rejects (Resolves (Some (Some [js ''paint'']))) (app (ui_initial True None))) =
     [js ''paint'', js ''chemicals'']"
  using loadData_failure_falls_back
      [of Rejects "Resolves (Some (Some [js ''paint'']))" "app (ui_initial True None)"]
  by simp

section \<open>One submission in flight\<close>

lemma ui_inv_initial: "ui_inv (ui_initial a usr)"
  by (simp add: ui_inv_def ui_initial_def)

lemma ui_step_inv:
  assumes "ui_inv u" and "ui_step u e = Some u'"
  shows "ui_inv u'"
proof (cases e)
  case (SubmitForm f)
  with assms show ?thesis
    by (auto simp: ui_inv_def submit_disabled_def call_handleSubmit_def handleSubmit_start_def
        split: if_splits option.splits)
next
  case (SubmitClarifying t)
  with assms show ?thesis
    by (auto simp: ui_inv_def handleClarifyingResponse_def handleSubmit_start_def
        ParcelResult_def
        split: if_splits option.splits view.splits)
next
  case (Settle k out)
  with assms have k: "k < length (in_flight u)" by (auto split: if_splits)
  with assms have "in_flight u \<noteq> []" "length (in_flight u) \<le> 1" by (auto simp: ui_inv_def)
  with k have "remove_nth k (in_flight u) = []"
    by (cases "in_flight u") (auto simp: remove_nth_def)
  with assms Settle k show ?thesis
    by (auto simp: ui_inv_def handleSubmit_settle_def split: post_outcome.splits)
next
  case Reset
  with assms show ?thesis by (auto simp: ui_inv_def resetForm_def split: if_splits)
next
  case (Login usr)
  with assms show ?thesis by (auto simp: ui_inv_def handleLogin_def split: if_splits)
next
  case Logout
  with assms show ?thesis by (auto simp: ui_inv_def handleLogout_def split: if_splits)
next
  case (DataLoaded c m)
  with assms show ?thesis
    by (auto simp: ui_inv_def loadData_def fallback_data_def
        split: if_splits get_outcome.splits option.splits)
qed

lemma ui_run_inv: "ui_inv u \<Longrightarrow> ui_run u es = Some u' \<Longrightarrow> ui_inv u'"
proof (induction es arbitrary: u)
  case Nil
  then show ?case by simp
next
  case (Cons e es)
  then show ?case by (auto split: option.splits dest: ui_step_inv)
qed

lemma ui_inv_blocks_submission:
  assumes "ui_inv u" and "in_flight u \<noteq> []"
  shows "ui_step u (SubmitForm f) = None" and "ui_step u (SubmitClarifying t) = None"
proof -
  from assms have l: "isLoading (app u)" and r: "result (app u) = None"
    by (auto simp: ui_inv_def)
  from l show "ui_step u (SubmitForm f) = None" by (simp add: submit_disabled_def)
  from r show "ui_step u (SubmitClarifying t) = None" by (simp add: ParcelResult_def)
qed

text \<open>
  Claim C5. In every state that the user interface reaches from a mounted \<^verbatim>\<open>App\<close>, at most
  one request to create a parcel is in flight; and while one is in flight, the view offers
  no way to submit a further utterance: the submit button of the form is disabled and the
  clarifying card is not rendered, so the utterance is refused and nothing is queued.
\<close>

theorem at_most_one_submission_in_flight:
  "ui_run (ui_initial authenticated user) es = Some u \<Longrightarrow>
     length (in_flight u) \<le> 1 \<and>
     (in_flight u \<noteq> [] \<longrightarrow>
        (\<forall>f. ui_step u (SubmitForm f) = None) \<and> (\<forall>t. ui_step u (SubmitClarifying t) = None))"
proof -
  assume "ui_run (ui_initial authenticated user) es = Some u"
  with ui_inv_initial have i: "ui_inv u" by (rule ui_run_inv)
  then have len: "length (in_flight u) \<le> 1" by (simp add: ui_inv_def)
  have f: "ui_step u (SubmitForm f) = None" if "in_flight u \<noteq> []" for f
    using i that by (rule ui_inv_blocks_submission(1))
  have c: "ui_step u (SubmitClarifying t) = None" if "in_flight u \<noteq> []" for t
    using i that by (rule ui_inv_blocks_submission(2))
  from len f c show ?thesis by blast
qed

theorem at_most_one_submission_in_flight_witness:
  "map_option in_flight
     (ui_run (ui_initial True None)
        [SubmitForm \<lparr>formMessage = js ''50kg paint'', useQuickForm = False,
                     quickFormData = \<lparr>company = [], fromCity = [], toCity = [], weight = [],
                                       material = []\<rparr>\<rparr>]) = Some [js ''50kg paint''] \<and>
   ui_run (ui_initial True None)
     [SubmitForm \<lparr>formMessage = js ''50kg paint'', useQuickForm = False,
                  quickFormData = \<lparr>company = [], fromCity = [], toCity = [], weight = [],
                                    material = []\<rparr>\<rparr>,
      SubmitForm \<lparr>formMessage = js ''50kg paint'', useQuickForm = False,
                  quickFormData = \<lparr>company = [], fromCity = [], toCity = [], weight = [],
                                    material = []\<rparr>\<rparr>] = None"
  using at_most_one_submission_in_flight
      [of True None
        "[SubmitForm \<lparr>formMessage = js ''50kg paint'', useQuickForm = False,
                      quickFormData = \<lparr>company = [], fromCity = [], toCity = [], weight = [],
                                        material = []\<rparr>\<rparr>]"]
  by (simp add: ui_initial_def submit_disabled_def isFormValid_def ParcelForm_handleSubmit_def
      call_handleSubmit_def handleSubmit_start_def truthy_def trim_def is_js_whitespace_def
      js_def)

section \<open>The stored token and isAuthenticated\<close>









section \<open>The order of the outstanding fields\<close>

lemma map_fst_map_filter:
  "(\<And>f y. g f = Some y \<Longrightarrow> fst y = f) \<Longrightarrow>
     map fst (List.map_filter g xs) = filter (\<lambda>f. g f \<noteq> None) xs"
  by (induction xs) (auto split: option.splits)

lemma outstanding_fields:
  "map fst (outstanding es) = filter (\<lambda>f. \<forall>v. es f \<noteq> Stated v) required_fields"
proof -
  let ?g = "\<lambda>f. case es f of Unset \<Rightarrow> Some (f, Missing)
             | Invalid t \<Rightarrow> Some (f, InvalidText t)
             | Stated v \<Rightarrow> None"
  have "map fst (List.map_filter ?g required_fields) = filter (\<lambda>f. ?g f \<noteq> None) required_fields"
    by (rule map_fst_map_filter) (auto split: field_status.splits)
  moreover have "(?g f \<noteq> None) \<longleftrightarrow> (\<forall>v. es f \<noteq> Stated v)" for f
    by (cases "es f") auto
  ultimately show ?thesis by (simp add: outstanding_def)
qed

lemma required_fields_ranked: "sorted_wrt (\<lambda>a b. field_rank a < field_rank b) required_fields"
  by (simp add: required_fields_def)

lemma outstanding_sorted:
  "sorted_wrt (\<lambda>a b. field_rank (fst a) < field_rank (fst b)) (outstanding es)"
proof -
  have "sorted_wrt (\<lambda>a b. field_rank a < field_rank b) (map fst (outstanding es))"
    unfolding outstanding_fields using required_fields_ranked by (rule sorted_wrt_filter)
  then show ?thesis by (simp add: sorted_wrt_map)
qed

lemma fold_update:
  "fold (\<lambda>(f, s) es. es(f := s)) xs e0 =
     (\<lambda>f. case map_of (rev xs) f of Some s \<Rightarrow> s | None \<Rightarrow> e0 f)"
proof (induction xs arbitrary: e0)
  case Nil
  show ?case by simp
next
  case (Cons x xs)
  obtain a b where x: "x = (a, b)" by (cases x)
  have "fold (\<lambda>(f, s) es. es(f := s)) (x # xs) e0 =
        fold (\<lambda>(f, s) es. es(f := s)) xs (e0(a := b))"
    by (simp add: x)
  also have "\<dots> = (\<lambda>f. case map_of (rev xs) f of Some s \<Rightarrow> s | None \<Rightarrow> (e0(a := b)) f)"
    by (rule Cons.IH)
  also have "\<dots> = (\<lambda>f. case map_of (rev (x # xs)) f of Some s \<Rightarrow> s | None \<Rightarrow> e0 f)"
    by (auto simp: x map_add_def fun_eq_iff split: option.splits)
  finally show ?case .
qed

lemma entity_set_of_order:
  assumes "distinct (map fst xs)" "distinct (map fst ys)" "set xs = set ys"
  shows "entity_set_of xs = entity_set_of ys"
proof -
  have "map_of (rev xs) = map_of (rev ys)"
    using assms by (subst map_of_inject_set) (simp_all add: rev_map [symmetric])
  then show ?thesis by (simp add: entity_set_of_def fold_update)
qed

text \<open>
  Claim C6. The validator is a function of the Entity Set. When the set is incomplete, the
  list it returns is not empty and names exactly the fields that are not stated, in the
  fixed order company, originCity, destinationCity, weightKg, material; the set is complete
  exactly when every field is stated. The order in which the fields were extracted has no
  part in it: two extraction sequences with the same extractions, one per field, give the
  same verdict.
\<close>

theorem completeness_validator_fixed_order:
  "(completeness_validator es = Incomplete l \<longrightarrow>
      l \<noteq> [] \<and>
      map fst l = filter (\<lambda>f. \<forall>v. es f \<noteq> Stated v) required_fields \<and>
      sorted_wrt (\<lambda>a b. field_rank (fst a) < field_rank (fst b)) l) \<and>
   (completeness_validator es = Complete \<longleftrightarrow> (\<forall>f. \<exists>v. es f = Stated v)) \<and>
   (distinct (map fst xs) \<and> distinct (map fst ys) \<and> set xs = set ys \<longrightarrow>
      completeness_validator (entity_set_of xs :: 'v entity_set) =
      completeness_validator (entity_set_of ys))"
proof (intro conjI impI)
  assume "completeness_validator es = Incomplete l"
  then have l: "l = outstanding es" "l \<noteq> []"
    by (auto simp: completeness_validator_def split: if_splits)
  then show "l \<noteq> []" by simp
  from l show "map fst l = filter (\<lambda>f. \<forall>v. es f \<noteq> Stated v) required_fields"
    by (simp add: outstanding_fields)
  from l show "sorted_wrt (\<lambda>a b. field_rank (fst a) < field_rank (fst b)) l"
    by (simp add: outstanding_sorted)
next
  have "outstanding es = [] \<longleftrightarrow> map fst (outstanding es) = []" by simp
  also have "\<dots> \<longleftrightarrow> (\<forall>f\<in>set required_fields. \<exists>v. es f = Stated v)"
    unfolding outstanding_fields by (auto simp: filter_empty_conv)
  also have "\<dots> \<longleftrightarrow> (\<forall>f. \<exists>v. es f = Stated v)"
  proof -
    have "f \<in> set required_fields" for f by (cases f) (simp_all add: required_fields_def)
    then show ?thesis by blast
  qed
  finally show "completeness_validator es = Complete \<longleftrightarrow> (\<forall>f. \<exists>v. es f = Stated v)"
    by (simp add: completeness_validator_def)
next
  assume "distinct (map fst xs) \<and> distinct (map fst ys) \<and> set xs = set ys"
  then have "entity_set_of xs = entity_set_of ys" by (simp add: entity_set_of_order)
  then show "completeness_validator (entity_set_of xs) = completeness_validator (entity_set_of ys)"
    by simp
qed

theorem completeness_validator_fixed_order_witness:
  "completeness_validator
     (entity_set_of
        [(Material, Unset), (WeightKg, Invalid (js ''heavy'')), (Company, Unset),
         (OriginCity, Stated (1::nat)), (DestinationCity, Stated 2)]) =
     Incomplete [(Company, Missing), (WeightKg, InvalidText (js ''heavy'')), (Material, Missing)]"
  using completeness_validator_fixed_order
      [of "entity_set_of
             [(Material, Unset), (WeightKg, Invalid (js ''heavy'')), (Company, Unset),
              (OriginCity, Stated (1::nat)), (DestinationCity, Stated 2)]"
        "[(Company, Missing), (WeightKg, InvalidText (js ''heavy'')), (Material, Missing)]"
        "[]" "[]"]
  by (simp add: completeness_validator_def outstanding_def required_fields_def
      entity_set_of_def)

section \<open>The status of a candidate weight\<close>

lemma map_filter_member:
  "x \<in> set xs \<Longrightarrow> g x = Some y \<Longrightarrow> y \<in> set (List.map_filter g xs)"
  by (induction xs) (auto split: option.splits)

lemma invalid_weight_outstanding:
  "es WeightKg = Invalid t \<Longrightarrow> (WeightKg, InvalidText t) \<in> set (outstanding es)"
  unfolding outstanding_def
  by (rule map_filter_member [where x = WeightKg]) (simp_all add: required_fields_def)

text \<open>
  Claim C7. A candidate weight is accepted as \<open>stated\<close> exactly when it reads as a number of
  kilograms, integer or decimal, strictly greater than 0, and it is then stated with that
  number. Every candidate that is not a number or is not positive gets the status
  \<open>invalid\<close> with its original text; the validator then does not find the Entity Set
  complete and lists the weight with that text.
\<close>

theorem resolve_weight_stated_iff_positive_number:
  "((\<exists>v. resolve_weight (Some x) = Stated v) \<longleftrightarrow> (\<exists>w. kilograms x = Some w \<and> 0 < w)) \<and>
   (kilograms x = Some w \<and> 0 < w \<longrightarrow> resolve_weight (Some x) = Stated w) \<and>
   (kilograms x = None \<or> (\<exists>w. kilograms x = Some w \<and> w \<le> 0) \<longrightarrow>
      resolve_weight (Some x) = Invalid (original_text x) \<and>
      (\<forall>es. completeness_validator (es(WeightKg := resolve_weight (Some x))) \<noteq> Complete \<and>
            (WeightKg, InvalidText (original_text x)) \<in>
              set (outstanding (es(WeightKg := resolve_weight (Some x))))))"
proof (intro conjI impI)
  show "(\<exists>v. resolve_weight (Some x) = Stated v) \<longleftrightarrow> (\<exists>w. kilograms x = Some w \<and> 0 < w)"
    by (auto simp: resolve_weight_def split: option.splits if_splits)
next
  assume "kilograms x = Some w \<and> 0 < w"
  then show "resolve_weight (Some x) = Stated w" by (simp add: resolve_weight_def)
next
  assume a: "kilograms x = None \<or> (\<exists>w. kilograms x = Some w \<and> w \<le> 0)"
  then show i: "resolve_weight (Some x) = Invalid (original_text x)"
    by (auto simp: resolve_weight_def)
  show "\<forall>es. completeness_validator (es(WeightKg := resolve_weight (Some x))) \<noteq> Complete \<and>
            (WeightKg, InvalidText (original_text x)) \<in>
              set (outstanding (es(WeightKg := resolve_weight (Some x))))"
  proof
    fix es :: "rat entity_set"
    have m: "(WeightKg, InvalidText (original_text x)) \<in>
        set (outstanding (es(WeightKg := resolve_weight (Some x))))"
      by (rule invalid_weight_outstanding) (simp add: i)
    then have "outstanding (es(WeightKg := resolve_weight (Some x))) \<noteq> []" by auto
    then have "completeness_validator (es(WeightKg := resolve_weight (Some x))) \<noteq> Complete"
      by (simp add: completeness_validator_def)
    with m show "completeness_validator (es(WeightKg := resolve_weight (Some x))) \<noteq> Complete \<and>
            (WeightKg, InvalidText (original_text x)) \<in>
              set (outstanding (es(WeightKg := resolve_weight (Some x))))" by simp
  qed
qed

theorem resolve_weight_stated_iff_positive_number_witness:
  "resolve_weight (Some \<lparr>original_text = js ''0.5'', kilograms = Some (1 / 2)\<rparr>) = Stated (1 / 2) \<and>
   resolve_weight (Some \<lparr>original_text = js ''-5'', kilograms = Some (- 5)\<rparr>) = Invalid (js ''-5'') \<and>
   resolve_weight (Some \<lparr>original_text = js ''0'', kilograms = Some 0\<rparr>) = Invalid (js ''0'') \<and>
   resolve_weight (Some \<lparr>original_text = js ''heavy'', kilograms = None\<rparr>) = Invalid (js ''heavy'')"
  using resolve_weight_stated_iff_positive_number
      [of "\<lparr>original_text = js ''0.5'', kilograms = Some (1 / 2)\<rparr>" "1 / 2"]
    resolve_weight_stated_iff_positive_number
      [of "\<lparr>original_text = js ''-5'', kilograms = Some (- 5)\<rparr>" 0]
    resolve_weight_stated_iff_positive_number
      [of "\<lparr>original_text = js ''0'', kilograms = Some 0\<rparr>" 0]
    resolve_weight_stated_iff_positive_number
      [of "\<lparr>original_text = js ''heavy'', kilograms = None\<rparr>" 0]
  by simp

end
